theory Spec2Isabelle
  imports Main "HOL-Library.Word"
begin

section \<open>Data model (src/main.py, lines 17-43)\<close>

text \<open>
  A \<open>date\<close> is a value of Python's \<open>datetime.date\<close> (year, month, day) as pydantic has
  parsed it. Request bodies and the dictionaries produced by \<open>model_dump\<close> are modelled by
  one record, \<open>data\<close>: a dictionary over the five field names whose entries are missing
  (\<open>Absent\<close>), present with Python's \<open>None\<close> / JSON \<open>null\<close> (\<open>Null\<close>), or present with a
  value of the declared type (\<open>Val\<close>). Bodies with a value of the wrong JSON type are
  outside this type: FastAPI answers them with 422 before any handler runs.
\<close>

datatype date = Date nat nat nat

datatype 'a entry = Absent | Null | Val 'a

record data =
  d_release_date :: "date entry"
  d_studio :: "string entry"
  d_ratings :: "int entry"
  d_platforms :: "string list entry"
  d_name :: "string entry"

text \<open>
  A Python instance of \<open>GameBase\<close> and of its subclasses \<open>Game\<close>, \<open>GamePublic\<close> and
  \<open>GameCreate\<close> (all three add the one attribute \<open>name\<close>). An attribute of a Python object
  can hold \<open>None\<close> whatever its annotation says, so every attribute is an option; the
  validators below are what enforces the annotations.
\<close>

record GameBase =
  release_date :: "date option"
  studio :: "string option"
  ratings :: "int option"
  platforms :: "string list option"

record Game = GameBase +
  name :: "string option"

text \<open>
  A row of the SQL table \<open>game\<close> that \<open>class Game(GameBase, table=True)\<close> declares.
  \<open>name\<close> is the primary key; \<open>release_date\<close>, \<open>studio\<close> and \<open>ratings\<close> are required
  fields and so NOT NULL columns; \<open>platforms\<close> is declared by \<open>sa_column=Column(JSON)\<close>, a
  column that is nullable. \<open>ratings: int\<close> is an INTEGER column: SQLite holds a signed
  64-bit integer there, where Python's \<open>int\<close> is unbounded. The table is the list of its
  rows in rowid order.
\<close>

record row =
  c_name :: string
  c_release_date :: date
  c_studio :: string
  c_ratings :: "64 word"
  c_platforms :: "string list option"

type_synonym table = "row list"

datatype error =
    HTTPException nat string
  | RequestValidationError
  | ValidationError
  | IntegrityError
  | OverflowError
  | InvalidRequestError
  | ResponseValidationError

text \<open>
  The HTTP status of an error: an \<open>HTTPException\<close> carries its own, FastAPI answers a
  request that fails validation with 422, and every other exception is unhandled: 500.
\<close>

fun status_code :: "error \<Rightarrow> nat" where
  "status_code (HTTPException code detail) = code"
| "status_code RequestValidationError = 422"
| "status_code ValidationError = 500"
| "status_code IntegrityError = 500"
| "status_code OverflowError = 500"
| "status_code InvalidRequestError = 500"
| "status_code ResponseValidationError = 500"

section \<open>Validation (pydantic)\<close>

text \<open>A required field of non-optional type: a missing key and \<open>None\<close> both fail.\<close>

fun required :: "'a entry \<Rightarrow> 'a option" where
  "required (Val v) = Some v"
| "required Null = None"
| "required Absent = None"

text \<open>
  \<open>GameCreate(**d)\<close>: the four fields of \<open>GameBase\<close> are required, \<open>studio\<close> has
  \<open>min_length=1\<close>; \<open>name: str\<close> is required and has no other constraint.
\<close>

definition GameCreate_init :: "data \<Rightarrow> Game option" where
  "GameCreate_init d =
     (case required (d_release_date d) of None \<Rightarrow> None | Some rd \<Rightarrow>
     (case required (d_studio d) of None \<Rightarrow> None | Some st \<Rightarrow>
     (case required (d_ratings d) of None \<Rightarrow> None | Some r \<Rightarrow>
     (case required (d_platforms d) of None \<Rightarrow> None | Some p \<Rightarrow>
     (case required (d_name d) of None \<Rightarrow> None | Some n \<Rightarrow>
      if 1 \<le> length st
      then Some \<lparr>release_date = Some rd, studio = Some st, ratings = Some r,
                 platforms = Some p, name = Some n\<rparr>
      else None)))))"

text \<open>
  \<open>Game.model_validate(obj)\<close>: the fields of \<open>GameBase\<close> as above, and \<open>name\<close> with
  \<open>min_length=1\<close>.
\<close>

definition Game_model_validate :: "Game \<Rightarrow> Game option" where
  "Game_model_validate g =
     (case release_date g of None \<Rightarrow> None | Some rd \<Rightarrow>
     (case studio g of None \<Rightarrow> None | Some st \<Rightarrow>
     (case ratings g of None \<Rightarrow> None | Some r \<Rightarrow>
     (case platforms g of None \<Rightarrow> None | Some p \<Rightarrow>
     (case name g of None \<Rightarrow> None | Some n \<Rightarrow>
      if 1 \<le> length st \<and> 1 \<le> length n
      then Some \<lparr>release_date = Some rd, studio = Some st, ratings = Some r,
                 platforms = Some p, name = Some n\<rparr>
      else None)))))"

text \<open>
  Validation against \<open>GamePublic\<close>, the \<open>response_model\<close> of every route but DELETE: the
  fields of \<open>GameBase\<close> (with \<open>min_length=1\<close> on \<open>studio\<close>) and \<open>name: str\<close>.
\<close>

definition GamePublic_validate :: "Game \<Rightarrow> Game option" where
  "GamePublic_validate g =
     (case release_date g of None \<Rightarrow> None | Some rd \<Rightarrow>
     (case studio g of None \<Rightarrow> None | Some st \<Rightarrow>
     (case ratings g of None \<Rightarrow> None | Some r \<Rightarrow>
     (case platforms g of None \<Rightarrow> None | Some p \<Rightarrow>
     (case name g of None \<Rightarrow> None | Some n \<Rightarrow>
      if 1 \<le> length st
      then Some \<lparr>release_date = Some rd, studio = Some st, ratings = Some r,
                 platforms = Some p, name = Some n\<rparr>
      else None)))))"

text \<open>
  \<open>GameUpdate\<close> redeclares the four fields as \<open>T | None = None\<close>, without \<open>Field(...)\<close>: no
  field is required, \<open>None\<close> is accepted, and \<open>studio\<close> has lost its \<open>min_length\<close>. The class
  has no field \<open>name\<close>; pydantic ignores a key that is not a field. So every body is
  accepted, and the instance is the body without \<open>name\<close>.
\<close>

definition GameUpdate_init :: "data \<Rightarrow> data" where
  "GameUpdate_init d = d\<lparr>d_name := Absent\<rparr>"

section \<open>Dumps and attribute updates\<close>

fun dump_attr :: "'a option \<Rightarrow> 'a entry" where
  "dump_attr None = Null"
| "dump_attr (Some v) = Val v"

text \<open>\<open>model_dump()\<close> of a \<open>Game\<close>: every field is a key of the dictionary.\<close>

definition model_dump :: "Game \<Rightarrow> data" where
  "model_dump g =
     \<lparr>d_release_date = dump_attr (release_date g), d_studio = dump_attr (studio g),
      d_ratings = dump_attr (ratings g), d_platforms = dump_attr (platforms g),
      d_name = dump_attr (name g)\<rparr>"

text \<open>
  \<open>model_dump()\<close> of a \<open>GameUpdate\<close>: each of the four fields is a key, a field that was
  not set has its default \<open>None\<close>.
\<close>

fun unset_default :: "'a entry \<Rightarrow> 'a entry" where
  "unset_default Absent = Null"
| "unset_default Null = Null"
| "unset_default (Val v) = Val v"

definition GameUpdate_model_dump :: "data \<Rightarrow> data" where
  "GameUpdate_model_dump u =
     \<lparr>d_release_date = unset_default (d_release_date u),
      d_studio = unset_default (d_studio u),
      d_ratings = unset_default (d_ratings u),
      d_platforms = unset_default (d_platforms u),
      d_name = Absent\<rparr>"

text \<open>\<open>model_dump(exclude_unset=True)\<close> of a \<open>GameUpdate\<close>: only the keys that were set.\<close>

definition GameUpdate_model_dump_exclude_unset :: "data \<Rightarrow> data" where
  "GameUpdate_model_dump_exclude_unset u = u"

text \<open>
  \<open>game_db.sqlmodel_update(game_data)\<close>: \<open>setattr\<close> for every key of the dictionary. A
  table model does not validate on assignment.
\<close>

fun set_attr :: "'a option \<Rightarrow> 'a entry \<Rightarrow> 'a option" where
  "set_attr old Absent = old"
| "set_attr old Null = None"
| "set_attr old (Val v) = Some v"

definition sqlmodel_update :: "Game \<Rightarrow> data \<Rightarrow> Game" where
  "sqlmodel_update g d =
     \<lparr>release_date = set_attr (release_date g) (d_release_date d),
      studio = set_attr (studio g) (d_studio d),
      ratings = set_attr (ratings g) (d_ratings d),
      platforms = set_attr (platforms g) (d_platforms d),
      name = set_attr (name g) (d_name d)\<rparr>"

section \<open>The session and the table\<close>

text \<open>The integers that SQLite's INTEGER holds: the signed 64-bit ones.\<close>

definition sqlite_integer :: "int \<Rightarrow> bool" where
  "sqlite_integer i \<longleftrightarrow> - (2 ^ 63) \<le> i \<and> i < 2 ^ 63"

definition load :: "row \<Rightarrow> Game" where
  "load r =
     \<lparr>release_date = Some (c_release_date r), studio = Some (c_studio r),
      ratings = Some (sint (c_ratings r)), platforms = c_platforms r,
      name = Some (c_name r)\<rparr>"

text \<open>
  The row an instance is written as by an INSERT or an UPDATE. The driver binds the
  attributes as parameters first, and raises \<open>OverflowError\<close> for a Python \<open>int\<close> that
  is not a signed 64-bit integer; the statement then fails with an \<open>IntegrityError\<close> on
  a NULL in a NOT NULL column.
\<close>

definition flush_row :: "Game \<Rightarrow> error + row" where
  "flush_row g =
     (if (case ratings g of None \<Rightarrow> False | Some r \<Rightarrow> \<not> sqlite_integer r)
      then Inl OverflowError
      else
     (case name g of None \<Rightarrow> Inl IntegrityError | Some n \<Rightarrow>
     (case release_date g of None \<Rightarrow> Inl IntegrityError | Some rd \<Rightarrow>
     (case studio g of None \<Rightarrow> Inl IntegrityError | Some st \<Rightarrow>
     (case ratings g of None \<Rightarrow> Inl IntegrityError | Some r \<Rightarrow>
      Inr \<lparr>c_name = n, c_release_date = rd, c_studio = st, c_ratings = word_of_int r,
            c_platforms = platforms g\<rparr>)))))"

text \<open>\<open>session.get(Game, key)\<close>: the row whose primary key is \<open>key\<close>, or \<open>None\<close>.\<close>

definition session_get :: "table \<Rightarrow> string \<Rightarrow> Game option" where
  "session_get s key = map_option load (find (\<lambda>r. c_name r = key) s)"

text \<open>
  \<open>session.add(g); session.commit()\<close> for a new instance: an INSERT, which fails as
  above and on a primary key that the table already has.
\<close>

definition commit_insert :: "table \<Rightarrow> Game \<Rightarrow> error + table" where
  "commit_insert s g =
     (case flush_row g of Inl e \<Rightarrow> Inl e
      | Inr r \<Rightarrow>
          (if c_name r \<in> set (map c_name s) then Inl IntegrityError
           else Inr (s @ [r])))"

text \<open>
  \<open>session.add(g); session.commit()\<close> for an instance loaded under \<open>key\<close>: an UPDATE of
  the rows whose primary key is \<open>key\<close>.
\<close>

definition commit_update :: "table \<Rightarrow> string \<Rightarrow> Game \<Rightarrow> error + table" where
  "commit_update s key g =
     (case flush_row g of Inl e \<Rightarrow> Inl e
      | Inr r \<Rightarrow>
          (if c_name r \<noteq> key \<and> c_name r \<in> set (map c_name s) then Inl IntegrityError
           else Inr (map (\<lambda>x. if c_name x = key then r else x) s)))"

text \<open>\<open>session.delete(g); session.commit()\<close>: a DELETE of the rows whose key is \<open>key\<close>.\<close>

definition commit_delete :: "table \<Rightarrow> string \<Rightarrow> table" where
  "commit_delete s key = filter (\<lambda>x. c_name x \<noteq> key) s"

text \<open>\<open>session.refresh(g)\<close>: the instance is read again by its primary key.\<close>

definition refresh :: "table \<Rightarrow> Game \<Rightarrow> Game option" where
  "refresh s g = (case name g of None \<Rightarrow> None | Some n \<Rightarrow> session_get s n)"

text \<open>
  SQLite's \<open>OFFSET\<close> and \<open>LIMIT\<close> (the engine is \<open>sqlite:///games.db\<close>): a negative offset
  skips nothing, a negative limit is no limit. Both are bound as parameters of the
  query, with the \<open>OverflowError\<close> of an \<open>int\<close> that is not a signed 64-bit integer.
\<close>

definition sql_offset :: "int \<Rightarrow> 'a list \<Rightarrow> 'a list" where
  "sql_offset k xs = (if k < 0 then xs else drop (nat k) xs)"

definition sql_limit :: "int \<Rightarrow> 'a list \<Rightarrow> 'a list" where
  "sql_limit k xs = (if k < 0 then xs else take (nat k) xs)"

section \<open>Responses\<close>

text \<open>
  A route with \<open>response_model=GamePublic\<close> validates what the handler returns against
  \<open>GamePublic\<close>; a failure is a \<open>ResponseValidationError\<close>.
\<close>

definition serialize_response :: "nat \<Rightarrow> Game \<Rightarrow> error + nat \<times> Game" where
  "serialize_response code g =
     (case GamePublic_validate g of None \<Rightarrow> Inl ResponseValidationError
      | Some p \<Rightarrow> Inr (code, p))"

fun validate_all :: "Game list \<Rightarrow> Game list option" where
  "validate_all [] = Some []"
| "validate_all (g # gs) =
     (case GamePublic_validate g of None \<Rightarrow> None | Some p \<Rightarrow>
     (case validate_all gs of None \<Rightarrow> None | Some ps \<Rightarrow> Some (p # ps)))"

definition serialize_sequence :: "nat \<Rightarrow> Game list \<Rightarrow> error + nat \<times> Game list" where
  "serialize_sequence code gs =
     (case validate_all gs of None \<Rightarrow> Inl ResponseValidationError
      | Some ps \<Rightarrow> Inr (code, ps))"

section \<open>API routes (src/main.py, lines 109-170)\<close>

text \<open>
  A handler that writes takes the table and returns the response with the table after
  the request. An exception raised before the commit, or by the commit, leaves the table
  as it was; the validation of the response comes after the commit. \<open>limit\<close> is declared
  with \<open>Query(le=100)\<close>, \<open>offset\<close> without a constraint.
\<close>

definition read_games :: "int \<Rightarrow> int \<Rightarrow> table \<Rightarrow> error + nat \<times> Game list" where
  "read_games offset limit s =
     (if limit \<le> 100
      then (if sqlite_integer offset \<and> sqlite_integer limit
            then serialize_sequence 200 (map load (sql_limit limit (sql_offset offset s)))
            else Inl OverflowError)
      else Inl RequestValidationError)"

definition read_game :: "string \<Rightarrow> table \<Rightarrow> error + nat \<times> Game" where
  "read_game game_name s =
     (case session_get s game_name of
        None \<Rightarrow> Inl (HTTPException 404 ''Game not found'')
      | Some game_db \<Rightarrow> serialize_response 200 game_db)"

definition create_game :: "data \<Rightarrow> table \<Rightarrow> (error + nat \<times> Game) \<times> table" where
  "create_game body s =
     (case GameCreate_init body of None \<Rightarrow> (Inl RequestValidationError, s) | Some game \<Rightarrow>
     (case Game_model_validate game of None \<Rightarrow> (Inl ValidationError, s) | Some game_db \<Rightarrow>
     (case commit_insert s game_db of Inl e \<Rightarrow> (Inl e, s) | Inr s' \<Rightarrow>
     (case refresh s' game_db of None \<Rightarrow> (Inl InvalidRequestError, s')
      | Some game_db' \<Rightarrow> (serialize_response 201 game_db', s')))))"

text \<open>
  The part of both update handlers after \<open>game_db.sqlmodel_update(game_data)\<close>:
  \<open>session.add\<close>, \<open>session.commit\<close>, \<open>session.refresh\<close> and the response.
\<close>

definition commit_refresh_return ::
  "table \<Rightarrow> string \<Rightarrow> Game \<Rightarrow> (error + nat \<times> Game) \<times> table" where
  "commit_refresh_return s game_name game_db =
     (case commit_update s game_name game_db of Inl e \<Rightarrow> (Inl e, s) | Inr s' \<Rightarrow>
     (case refresh s' game_db of None \<Rightarrow> (Inl InvalidRequestError, s')
      | Some game_db' \<Rightarrow> (serialize_response 200 game_db', s')))"

definition update_game :: "string \<Rightarrow> data \<Rightarrow> table \<Rightarrow> (error + nat \<times> Game) \<times> table" where
  "update_game game_name body s =
     (case session_get s game_name of
        None \<Rightarrow> (Inl (HTTPException 404 ''Game not found''), s)
      | Some game_db \<Rightarrow>
     (case GameCreate_init
             ((GameUpdate_model_dump (GameUpdate_init body))\<lparr>d_name := Val game_name\<rparr>) of
        None \<Rightarrow> (Inl ValidationError, s)
      | Some game_create \<Rightarrow>
     (case Game_model_validate game_create of
        None \<Rightarrow> (Inl ValidationError, s)
      | Some game_update \<Rightarrow>
          commit_refresh_return s game_name
            (sqlmodel_update game_db (model_dump game_update)))))"

definition partial_update_game ::
  "string \<Rightarrow> data \<Rightarrow> table \<Rightarrow> (error + nat \<times> Game) \<times> table" where
  "partial_update_game game_name body s =
     (case session_get s game_name of
        None \<Rightarrow> (Inl (HTTPException 404 ''Game not found''), s)
      | Some game_db \<Rightarrow>
          commit_refresh_return s game_name
            (sqlmodel_update game_db
               (GameUpdate_model_dump_exclude_unset (GameUpdate_init body))))"

text \<open>DELETE has no \<open>response_model\<close>: the deleted instance is returned as it is.\<close>

definition delete_game :: "string \<Rightarrow> table \<Rightarrow> (error + nat \<times> Game) \<times> table" where
  "delete_game game_name s =
     (case session_get s game_name of
        None \<Rightarrow> (Inl (HTTPException 404 ''Game not found''), s)
      | Some game_db \<Rightarrow> (Inr (200, game_db), commit_delete s game_name))"

section \<open>Example requests\<close>

text \<open>The creation request of the specification's example, and bodies for PATCH.\<close>

definition chrono_trigger :: data where
  "chrono_trigger =
     \<lparr>d_release_date = Val (Date 1995 3 11), d_studio = Val ''Square'',
      d_ratings = Val 10, d_platforms = Val [''SNES''], d_name = Val ''Chrono Trigger''\<rparr>"

definition empty_body :: data where
  "empty_body =
     \<lparr>d_release_date = Absent, d_studio = Absent, d_ratings = Absent,
      d_platforms = Absent, d_name = Absent\<rparr>"

definition chrono_row :: row where
  "chrono_row =
     \<lparr>c_name = ''Chrono Trigger'', c_release_date = Date 1995 3 11,
      c_studio = ''Square'', c_ratings = 10, c_platforms = Some [''SNES'']\<rparr>"

definition chrono_game :: Game where
  "chrono_game =
     \<lparr>release_date = Some (Date 1995 3 11), studio = Some ''Square'',
      ratings = Some 10, platforms = Some [''SNES''], name = Some ''Chrono Trigger''\<rparr>"

section \<open>The constraints of the entity on stored rows\<close>

text \<open>
  Every row of the table, loaded as a \<open>Game\<close>, passes the validation of \<open>Game\<close>: no
  field is \<open>None\<close>, the name and the studio are not empty.
\<close>

definition stored_valid :: "table \<Rightarrow> bool" where
  "stored_valid s = list_all (\<lambda>r. Game_model_validate (load r) = Some (load r)) s"

section \<open>Lookup, insertion, update and deletion in the table\<close>

lemma sint_word_of_int64: "sqlite_integer i \<Longrightarrow> sint (word_of_int i :: 64 word) = i"
  by (simp add: sqlite_integer_def sint_sbintrunc' signed_take_bit_int_eq_self)

lemma sqlite_integer_sint: "sqlite_integer (sint (w :: 64 word))"
  using sint_ge [of w] sint_lt [of w] by (simp add: sqlite_integer_def)

lemma session_get_None: "session_get s k = None \<longleftrightarrow> k \<notin> c_name ` set s"
  by (auto simp: session_get_def find_None_iff)

lemma flush_load: "flush_row (load r) = Inr r"
  by (simp add: flush_row_def load_def sqlite_integer_sint)

lemma session_get_Some:
  "session_get s k = Some g \<Longrightarrow>
     k \<in> c_name ` set s \<and> name g = Some k \<and> (\<exists>r. flush_row g = Inr r)"
  by (auto simp: session_get_def flush_load find_Some_iff) (simp add: load_def)

lemma load_flush: "flush_row g = Inr r \<Longrightarrow> load r = g"
  by (auto simp: flush_row_def load_def sint_word_of_int64 split: option.splits if_splits)

lemma flush_name: "flush_row g = Inr r \<Longrightarrow> name g = Some (c_name r)"
  by (auto simp: flush_row_def split: option.splits if_splits)

lemma flush_overflow:
  "ratings g = Some r \<Longrightarrow> \<not> sqlite_integer r \<Longrightarrow> flush_row g = Inl OverflowError"
  by (simp add: flush_row_def)

lemma flush_error: "flush_row g = Inl e \<Longrightarrow> e = OverflowError \<or> e = IntegrityError"
  by (auto simp: flush_row_def split: option.splits if_splits)

lemma flush_overflow_only:
  "flush_row g = Inl OverflowError \<Longrightarrow> \<exists>r. ratings g = Some r \<and> \<not> sqlite_integer r"
  by (auto simp: flush_row_def split: option.splits if_splits)

lemma flush_written:
  "name g = Some n \<Longrightarrow> release_date g = Some rd \<Longrightarrow> studio g = Some st \<Longrightarrow>
   ratings g = Some r \<Longrightarrow> sqlite_integer r \<Longrightarrow> \<exists>x. flush_row g = Inr x"
  by (simp add: flush_row_def)

lemma session_get_append:
  "session_get (s @ [r]) k =
     (case session_get s k of Some g \<Rightarrow> Some g
      | None \<Rightarrow> if c_name r = k then Some (load r) else None)"
  by (induction s) (auto simp: session_get_def)

lemma session_get_delete:
  "session_get (commit_delete s key) k = (if k = key then None else session_get s k)"
  by (induction s) (auto simp: session_get_def commit_delete_def)

lemma session_get_update:
  "c_name r = key \<Longrightarrow>
   session_get (map (\<lambda>x. if c_name x = key then r else x) s) k =
     (if k = key then map_option (\<lambda>_. load r) (session_get s k) else session_get s k)"
  by (induction s) (auto simp: session_get_def)

lemma names_update:
  "c_name r = key \<Longrightarrow>
   map c_name (map (\<lambda>x. if c_name x = key then r else x) s) = map c_name s"
  by (induction s) auto

lemma GameCreate_init_name:
  "GameCreate_init d = Some g \<Longrightarrow> d_name d = Val n \<Longrightarrow> name g = Some n"
  by (auto simp: GameCreate_init_def split: option.splits if_splits)

lemma GameCreate_init_ratings:
  "GameCreate_init d = Some g \<Longrightarrow> ratings g = Some r \<Longrightarrow> d_ratings d = Val r"
  by (cases "d_ratings d")
     (auto simp: GameCreate_init_def split: option.splits if_splits)

lemma Game_model_validate_Some:
  "Game_model_validate g = Some g' \<Longrightarrow> g' = g \<and> GamePublic_validate g = Some g"
  by (cases g)
     (auto simp: Game_model_validate_def GamePublic_validate_def
           split: option.splits if_splits)

lemma flush_valid:
  "Game_model_validate g = Some g \<Longrightarrow> ratings g = Some r \<Longrightarrow> sqlite_integer r \<Longrightarrow>
     \<exists>x. flush_row g = Inr x"
  by (auto simp: Game_model_validate_def flush_row_def split: option.splits if_splits)

lemma example_stored: "session_get [chrono_row] ''Chrono Trigger'' = Some chrono_game"
  by (simp add: session_get_def chrono_row_def chrono_game_def load_def)

section \<open>Creation\<close>

text \<open>
  Claim C1. When the table holds a game under the name \<open>n\<close>, a creation request whose
  body has the name \<open>n\<close> is rejected: the response is an error (of request validation,
  status 422, or the unhandled validation, overflow or integrity error, status 500),
  never the 201 of a creation; the table is what it was, and the game stored under \<open>n\<close>
  is the game that was there. The overflow error is that of ratings beyond the signed
  64-bit range, and of nothing else.
\<close>

theorem create_game_existing_name_rejected:
  assumes "session_get s n = Some g" and "d_name body = Val n"
  shows "fst (create_game body s) \<in>
           {Inl RequestValidationError, Inl ValidationError, Inl OverflowError,
            Inl IntegrityError}
         \<and> (fst (create_game body s) = Inl OverflowError
              \<longrightarrow> (\<exists>r. d_ratings body = Val r \<and> \<not> sqlite_integer r))
         \<and> snd (create_game body s) = s
         \<and> session_get (snd (create_game body s)) n = Some g"
proof (cases "GameCreate_init body")
  case None
  then show ?thesis using assms by (simp add: create_game_def)
next
  case (Some game)
  note game = this
  show ?thesis
  proof (cases "Game_model_validate game")
    case None
    then show ?thesis using assms game by (simp add: create_game_def)
  next
    case (Some game_db)
    then have eq: "game_db = game" using Game_model_validate_Some by blast
    have "(commit_insert s game = Inl OverflowError
            \<and> (\<exists>r. d_ratings body = Val r \<and> \<not> sqlite_integer r))
          \<or> commit_insert s game = Inl IntegrityError"
    proof (cases "flush_row game")
      case (Inl e)
      show ?thesis
      proof (cases "e = OverflowError")
        case True
        then obtain r where "ratings game = Some r" "\<not> sqlite_integer r"
          using Inl flush_overflow_only by blast
        then have "d_ratings body = Val r \<and> \<not> sqlite_integer r"
          using GameCreate_init_ratings [OF game] by simp
        then show ?thesis using Inl True by (auto simp: commit_insert_def)
      next
        case False
        then show ?thesis using flush_error [OF Inl] Inl by (simp add: commit_insert_def)
      qed
    next
      case (Inr r)
      have "name game = Some n" using game assms(2) by (rule GameCreate_init_name)
      with Inr have "c_name r = n" using flush_name by fastforce
      moreover have "n \<in> c_name ` set s" using assms(1) session_get_Some by blast
      ultimately show ?thesis using Inr by (simp add: commit_insert_def)
    qed
    then show ?thesis using assms game Some eq by (auto simp: create_game_def)
  qed
qed

text \<open>
  The example game is sent a second time: the INSERT violates the primary key.
\<close>

theorem create_game_existing_name_rejected_witness:
  "session_get [chrono_row] ''Chrono Trigger'' = Some chrono_game
   \<and> d_name chrono_trigger = Val ''Chrono Trigger''
   \<and> create_game chrono_trigger [chrono_row] = (Inl IntegrityError, [chrono_row])"
proof -
  have h1: "session_get [chrono_row] ''Chrono Trigger'' = Some chrono_game"
    by (rule example_stored)
  have h2: "d_name chrono_trigger = Val ''Chrono Trigger''"
    by (simp add: chrono_trigger_def)
  have "fst (create_game chrono_trigger [chrono_row]) = Inl IntegrityError"
    by (simp add: create_game_def chrono_trigger_def chrono_row_def GameCreate_init_def
        Game_model_validate_def commit_insert_def flush_row_def sqlite_integer_def)
  with create_game_existing_name_rejected [OF h1 h2] h1 h2 show ?thesis
    by (simp add: prod_eq_iff)
qed

text \<open>A valid game is read back from its own dump.\<close>

lemma model_dump_inverse:
  "Game_model_validate g = Some g \<Longrightarrow> GameCreate_init (model_dump g) = Some g"
  by (cases g)
     (auto simp: Game_model_validate_def GameCreate_init_def model_dump_def
           split: option.splits if_splits)

lemma create_example: "create_game chrono_trigger [] = (Inr (201, chrono_game), [chrono_row])"
  by (simp add: create_game_def chrono_trigger_def chrono_game_def chrono_row_def
      GameCreate_init_def Game_model_validate_def commit_insert_def flush_row_def
      sqlite_integer_def refresh_def session_get_def load_def serialize_response_def
      GamePublic_validate_def)

text \<open>
  Claim C2, as stated, at the example payload with the ratings \<open>2 ^ 63\<close>. The payload
  passes the validation of \<open>GameCreate\<close> and of \<open>Game\<close> (\<open>ratings: int\<close> has no bound) and
  its name is not in the empty table, but the INSERT cannot bind the ratings: the
  creation ends in the unhandled \<open>OverflowError\<close>, nothing is stored, and the get that
  follows is answered by 404, not by the payload's fields.
\<close>

theorem create_then_get_counterexample:
  "Game_model_validate (chrono_game\<lparr>ratings := Some (2 ^ 63)\<rparr>)
     = Some (chrono_game\<lparr>ratings := Some (2 ^ 63)\<rparr>)
   \<and> session_get [] ''Chrono Trigger'' = None
   \<and> create_game (model_dump (chrono_game\<lparr>ratings := Some (2 ^ 63)\<rparr>)) []
       = (Inl OverflowError, [])
   \<and> read_game ''Chrono Trigger''
        (snd (create_game (model_dump (chrono_game\<lparr>ratings := Some (2 ^ 63)\<rparr>)) []))
       = Inl (HTTPException 404 ''Game not found'')"
  by (simp add: create_game_def read_game_def model_dump_def chrono_game_def
      GameCreate_init_def Game_model_validate_def commit_insert_def flush_row_def
      sqlite_integer_def session_get_def)

text \<open>
  Claim C2, amended. For every valid \<open>Game\<close> payload \<open>g\<close> (one that \<open>Game\<close>'s validation
  accepts as it is) whose ratings are a signed 64-bit integer and whose name \<open>n\<close> is not
  in the table, the creation request with the fields of \<open>g\<close> answers 201 with \<open>g\<close>, and
  the get request for \<open>n\<close> that follows answers 200 with \<open>g\<close>: the same name, release
  date, studio, ratings and platforms.
\<close>

theorem create_then_get:
  assumes "Game_model_validate g = Some g" and "name g = Some n"
      and "ratings g = Some r" and "sqlite_integer r"
      and "session_get s n = None"
  shows "fst (create_game (model_dump g) s) = Inr (201, g)
         \<and> read_game n (snd (create_game (model_dump g) s)) = Inr (200, g)"
proof -
  have pub: "GamePublic_validate g = Some g"
    using assms(1) Game_model_validate_Some by blast
  obtain x where x: "flush_row g = Inr x"
    using flush_valid [OF assms(1,3,4)] by blast
  then have xn: "c_name x = n" using flush_name assms(2) by fastforce
  have lx: "load x = g" using x by (rule load_flush)
  have "n \<notin> c_name ` set s" using assms(5) by (simp add: session_get_None)
  then have ins: "commit_insert s g = Inr (s @ [x])"
    using x xn by (simp add: commit_insert_def)
  have get: "session_get (s @ [x]) n = Some g"
    using assms(5) xn lx by (simp add: session_get_append)
  have "create_game (model_dump g) s = (Inr (201, g), s @ [x])"
    using model_dump_inverse [OF assms(1)] assms(1,2) ins get pub
    by (simp add: create_game_def refresh_def serialize_response_def)
  then show ?thesis using get pub by (simp add: read_game_def serialize_response_def)
qed

text \<open>The example of the specification, on the empty table.\<close>

theorem create_then_get_witness:
  "Game_model_validate chrono_game = Some chrono_game
   \<and> name chrono_game = Some ''Chrono Trigger''
   \<and> ratings chrono_game = Some 10 \<and> sqlite_integer 10
   \<and> session_get [] ''Chrono Trigger'' = None
   \<and> model_dump chrono_game = chrono_trigger
   \<and> fst (create_game chrono_trigger []) = Inr (201, chrono_game)
   \<and> read_game ''Chrono Trigger'' (snd (create_game chrono_trigger [])) = Inr (200, chrono_game)"
proof -
  have h1: "Game_model_validate chrono_game = Some chrono_game"
    by (simp add: Game_model_validate_def chrono_game_def)
  have h2: "name chrono_game = Some ''Chrono Trigger''"
    by (simp add: chrono_game_def)
  have h3: "ratings chrono_game = Some 10" by (simp add: chrono_game_def)
  have h4: "sqlite_integer 10" by (simp add: sqlite_integer_def)
  have h5: "session_get [] ''Chrono Trigger'' = None"
    by (simp add: session_get_def)
  have d: "model_dump chrono_game = chrono_trigger"
    by (simp add: model_dump_def chrono_game_def chrono_trigger_def)
  show ?thesis using create_then_get [OF h1 h2 h3 h4 h5] h1 h2 h3 h4 h5 d by simp
qed

section \<open>Updates\<close>

text \<open>
  What commit, refresh and return do with an instance that can be written under the key
  it was loaded by, and with one that cannot be written.
\<close>

lemma commit_update_ok:
  assumes "flush_row g = Inr r" and "c_name r = key"
  shows "commit_update s key g = Inr (map (\<lambda>x. if c_name x = key then r else x) s)"
  using assms by (simp add: commit_update_def)

lemma commit_refresh_return_ok:
  assumes "session_get s key = Some g0" and "flush_row g = Inr r" and "c_name r = key"
  shows "commit_refresh_return s key g =
           (serialize_response 200 g, map (\<lambda>x. if c_name x = key then r else x) s)
         \<and> session_get (map (\<lambda>x. if c_name x = key then r else x) s) key = Some g"
proof -
  have n: "name g = Some key" using assms(2,3) flush_name by fastforce
  have get: "session_get (map (\<lambda>x. if c_name x = key then r else x) s) key = Some g"
    using assms load_flush [OF assms(2)] by (simp add: session_get_update)
  show ?thesis
    using commit_update_ok [OF assms(2,3)] n get
    by (simp add: commit_refresh_return_def refresh_def)
qed

lemma commit_refresh_return_fail:
  "flush_row g = Inl e \<Longrightarrow> commit_refresh_return s key g = (Inl e, s)"
  by (simp add: commit_refresh_return_def commit_update_def)

text \<open>
  Claim C3. When the table holds the game \<open>g\<close> under the name \<open>n\<close>, a partial update of
  \<open>n\<close> whose body supplies, of the four fields, only \<open>ratings\<close> leaves a game under \<open>n\<close>
  with the studio, release date, platforms and name of \<open>g\<close>: only the ratings can
  change. When the supplied ratings are a signed 64-bit integer they are the stored
  game's ratings; when they are an integer beyond that range the UPDATE cannot bind
  them and the stored ratings stay as they were.
\<close>

theorem partial_update_only_ratings:
  assumes "session_get s n = Some g"
      and "d_release_date body = Absent" and "d_studio body = Absent"
      and "d_platforms body = Absent"
  shows "\<exists>g'. session_get (snd (partial_update_game n body s)) n = Some g'
           \<and> studio g' = studio g \<and> release_date g' = release_date g
           \<and> platforms g' = platforms g \<and> name g' = name g
           \<and> (\<forall>r. d_ratings body = Val r \<and> sqlite_integer r \<longrightarrow> ratings g' = Some r)
           \<and> (\<forall>r. d_ratings body = Val r \<and> \<not> sqlite_integer r \<longrightarrow> ratings g' = ratings g)"
proof -
  let ?g = "sqlmodel_update g (GameUpdate_model_dump_exclude_unset (GameUpdate_init body))"
  have pu: "partial_update_game n body s = commit_refresh_return s n ?g"
    using assms(1) by (simp add: partial_update_game_def)
  have frame: "studio ?g = studio g" "release_date ?g = release_date g"
    "platforms ?g = platforms g" "name ?g = name g"
    "ratings ?g = set_attr (ratings g) (d_ratings body)"
    using assms(2-4)
    by (simp_all add: sqlmodel_update_def GameUpdate_model_dump_exclude_unset_def
        GameUpdate_init_def)
  obtain x0 where x0: "flush_row g = Inr x0" and nm: "name g = Some n"
    using assms(1) session_get_Some by blast
  show ?thesis
  proof (cases "flush_row ?g")
    case (Inl e)
    then have same: "snd (partial_update_game n body s) = s"
      using pu by (simp add: commit_refresh_return_fail)
    have "\<not> (d_ratings body = Val r \<and> sqlite_integer r)" for r
    proof
      assume a: "d_ratings body = Val r \<and> sqlite_integer r"
      obtain rd st where "release_date g = Some rd" "studio g = Some st"
        using x0 by (auto simp: flush_row_def split: option.splits if_splits)
      then have "\<exists>x. flush_row ?g = Inr x"
        using a nm frame by (intro flush_written [of _ n rd st r]) simp_all
      then show False using Inl by simp
    qed
    then show ?thesis using assms(1) same by auto
  next
    case (Inr x)
    have "c_name x = n" using flush_name [OF Inr] frame nm by simp
    from commit_refresh_return_ok [OF assms(1) Inr this]
    have get: "session_get (snd (partial_update_game n body s)) n = Some ?g"
      using pu by simp
    have "\<not> (d_ratings body = Val r \<and> \<not> sqlite_integer r)" for r
    proof
      assume "d_ratings body = Val r \<and> \<not> sqlite_integer r"
      then have "flush_row ?g = Inl OverflowError"
        using frame by (intro flush_overflow [of _ r]) simp_all
      then show False using Inr by simp
    qed
    then show ?thesis using get frame by auto
  qed
qed

text \<open>The ratings of the example game are set to 7.\<close>

theorem partial_update_only_ratings_witness:
  "session_get [chrono_row] ''Chrono Trigger'' = Some chrono_game
   \<and> d_release_date (empty_body\<lparr>d_ratings := Val 7\<rparr>) = Absent
   \<and> d_studio (empty_body\<lparr>d_ratings := Val 7\<rparr>) = Absent
   \<and> d_platforms (empty_body\<lparr>d_ratings := Val 7\<rparr>) = Absent
   \<and> d_ratings (empty_body\<lparr>d_ratings := Val 7\<rparr>) = Val 7 \<and> sqlite_integer 7
   \<and> session_get
        (snd (partial_update_game ''Chrono Trigger'' (empty_body\<lparr>d_ratings := Val 7\<rparr>)
                [chrono_row]))
        ''Chrono Trigger'' = Some (chrono_game\<lparr>ratings := Some 7\<rparr>)"
proof -
  let ?b = "empty_body\<lparr>d_ratings := Val 7\<rparr>"
  have h1: "session_get [chrono_row] ''Chrono Trigger'' = Some chrono_game"
    by (rule example_stored)
  have h2: "d_release_date ?b = Absent" and h3: "d_studio ?b = Absent"
    and h4: "d_platforms ?b = Absent" and h5: "d_ratings ?b = Val 7"
    by (simp_all add: empty_body_def)
  have h6: "sqlite_integer 7" by (simp add: sqlite_integer_def)
  from partial_update_only_ratings [OF h1 h2 h3 h4] h5 h6
  obtain g' where g': "session_get (snd (partial_update_game ''Chrono Trigger'' ?b [chrono_row]))
        ''Chrono Trigger'' = Some g'"
    "studio g' = studio chrono_game" "release_date g' = release_date chrono_game"
    "platforms g' = platforms chrono_game" "name g' = name chrono_game"
    "ratings g' = Some 7"
    by auto
  then have "g' = chrono_game\<lparr>ratings := Some 7\<rparr>"
    by (cases g') (simp add: chrono_game_def)
  with g'(1) h1 h2 h3 h4 h5 h6 show ?thesis by simp
qed

subsection \<open>Full update\<close>

text \<open>
  The full update of a stored game: the dump of the body, with the path's name, goes
  through the validation of \<open>GameCreate\<close> and of \<open>Game\<close> before anything is written.
\<close>

lemma update_game_found:
  assumes "session_get s n = Some g"
  shows "update_game n body s =
     (case GameCreate_init ((GameUpdate_model_dump (GameUpdate_init body))\<lparr>d_name := Val n\<rparr>) of
        None \<Rightarrow> (Inl ValidationError, s)
      | Some game_create \<Rightarrow>
     (case Game_model_validate game_create of
        None \<Rightarrow> (Inl ValidationError, s)
      | Some game_update \<Rightarrow>
          commit_refresh_return s n (sqlmodel_update g (model_dump game_update))))"
  using assms by (simp add: update_game_def)

lemma required_unset_default: "required (unset_default e) = required e"
  by (cases e) simp_all

lemma GameCreate_init_put:
  "GameCreate_init ((GameUpdate_model_dump (GameUpdate_init body))\<lparr>d_name := Val n\<rparr>) =
     (case required (d_release_date body) of None \<Rightarrow> None | Some rd \<Rightarrow>
     (case required (d_studio body) of None \<Rightarrow> None | Some st \<Rightarrow>
     (case required (d_ratings body) of None \<Rightarrow> None | Some r \<Rightarrow>
     (case required (d_platforms body) of None \<Rightarrow> None | Some p \<Rightarrow>
      if 1 \<le> length st
      then Some \<lparr>release_date = Some rd, studio = Some st, ratings = Some r,
                 platforms = Some p, name = Some n\<rparr>
      else None))))"
  by (simp add: GameCreate_init_def GameUpdate_model_dump_def GameUpdate_init_def
      required_unset_default split: option.splits)

text \<open>
  Claim C4, as stated, at a body that supplies every field, with the ratings \<open>2 ^ 63\<close>.
  The body passes both validations (\<open>ratings: int\<close> has no bound), but the UPDATE cannot
  bind the ratings: the request ends in the unhandled \<open>OverflowError\<close>, and the stored
  row is not replaced by the supplied values: it is the row that was there.
\<close>

theorem update_game_replaces_counterexample:
  "d_release_date (chrono_trigger\<lparr>d_studio := Val ''Squaresoft'', d_ratings := Val (2 ^ 63)\<rparr>)
     = Val (Date 1995 3 11)
   \<and> d_studio (chrono_trigger\<lparr>d_studio := Val ''Squaresoft'', d_ratings := Val (2 ^ 63)\<rparr>)
     = Val ''Squaresoft''
   \<and> d_ratings (chrono_trigger\<lparr>d_studio := Val ''Squaresoft'', d_ratings := Val (2 ^ 63)\<rparr>)
     = Val (2 ^ 63)
   \<and> d_platforms (chrono_trigger\<lparr>d_studio := Val ''Squaresoft'', d_ratings := Val (2 ^ 63)\<rparr>)
     = Val [''SNES'']
   \<and> update_game ''Chrono Trigger''
        (chrono_trigger\<lparr>d_studio := Val ''Squaresoft'', d_ratings := Val (2 ^ 63)\<rparr>)
        [chrono_row]
     = (Inl OverflowError, [chrono_row])
   \<and> session_get
        (snd (update_game ''Chrono Trigger''
                (chrono_trigger\<lparr>d_studio := Val ''Squaresoft'', d_ratings := Val (2 ^ 63)\<rparr>)
                [chrono_row]))
        ''Chrono Trigger''
     = Some chrono_game
   \<and> studio chrono_game = Some ''Square'' \<and> ratings chrono_game = Some 10"
proof -
  have "update_game ''Chrono Trigger''
        (chrono_trigger\<lparr>d_studio := Val ''Squaresoft'', d_ratings := Val (2 ^ 63)\<rparr>)
        [chrono_row]
     = (Inl OverflowError, [chrono_row])"
    by (simp add: update_game_found [OF example_stored] GameCreate_init_put
        chrono_trigger_def Game_model_validate_def sqlmodel_update_def model_dump_def
        commit_refresh_return_def commit_update_def flush_row_def sqlite_integer_def)
  then show ?thesis
    using example_stored by (simp add: chrono_trigger_def chrono_game_def)
qed

text \<open>
  Claim C4, amended. A full update of a stored game requires the body to supply a value
  for every non-key field: when the release date, the studio, the ratings or the
  platforms are omitted or null (or the studio is empty), the request is rejected with
  the unhandled validation error and nothing is written, so no omitted field is taken
  over from the prior row into an updated one. When the four fields are supplied and
  valid and the ratings are a signed 64-bit integer (and the path's name is not empty),
  the response is 200 and the stored game has exactly the supplied values under the
  same name. When the ratings are beyond that range the request ends in the unhandled
  \<open>OverflowError\<close> and the table is what it was.
\<close>

theorem update_game_replaces:
  assumes "session_get s n = Some g"
  shows "(required (d_release_date body) = None \<or> required (d_studio body) = None
          \<or> required (d_ratings body) = None \<or> required (d_platforms body) = None
          \<or> d_studio body = Val []
          \<longrightarrow> update_game n body s = (Inl ValidationError, s))
       \<and> (d_release_date body = Val rd \<and> d_studio body = Val st \<and> st \<noteq> []
          \<and> d_ratings body = Val r \<and> d_platforms body = Val p \<and> n \<noteq> []
          \<and> sqlite_integer r
          \<longrightarrow> fst (update_game n body s)
                = Inr (200, \<lparr>release_date = Some rd, studio = Some st, ratings = Some r,
                              platforms = Some p, name = Some n\<rparr>)
              \<and> session_get (snd (update_game n body s)) n
                = Some \<lparr>release_date = Some rd, studio = Some st, ratings = Some r,
                         platforms = Some p, name = Some n\<rparr>)
       \<and> (d_release_date body = Val rd \<and> d_studio body = Val st \<and> st \<noteq> []
          \<and> d_ratings body = Val r \<and> d_platforms body = Val p \<and> n \<noteq> []
          \<and> \<not> sqlite_integer r
          \<longrightarrow> update_game n body s = (Inl OverflowError, s))"
proof -
  let ?G = "\<lparr>release_date = Some rd, studio = Some st, ratings = Some r,
              platforms = Some p, name = Some n\<rparr>"
  let ?x = "\<lparr>c_name = n, c_release_date = rd, c_studio = st,
              c_ratings = word_of_int r :: 64 word, c_platforms = Some p\<rparr>"
  have supplied: "update_game n body s = commit_refresh_return s n ?G"
    if a: "d_release_date body = Val rd \<and> d_studio body = Val st \<and> st \<noteq> []
          \<and> d_ratings body = Val r \<and> d_platforms body = Val p \<and> n \<noteq> []"
  proof -
    have len: "1 \<le> length st" "1 \<le> length n"
      using a by (simp_all add: Suc_le_eq)
    have init: "GameCreate_init
        ((GameUpdate_model_dump (GameUpdate_init body))\<lparr>d_name := Val n\<rparr>) = Some ?G"
      using a len by (simp add: GameCreate_init_put)
    have val: "Game_model_validate ?G = Some ?G"
      using len by (simp add: Game_model_validate_def)
    have upd: "sqlmodel_update g (model_dump ?G) = ?G"
      by (simp add: sqlmodel_update_def model_dump_def)
    show ?thesis by (simp add: update_game_found [OF assms] init val upd)
  qed
  have omitted: "update_game n body s = (Inl ValidationError, s)"
    if "required (d_release_date body) = None \<or> required (d_studio body) = None
          \<or> required (d_ratings body) = None \<or> required (d_platforms body) = None
          \<or> d_studio body = Val []"
    using that
    by (auto simp: update_game_found [OF assms] GameCreate_init_put split: option.splits)
  have replaced: "fst (update_game n body s) = Inr (200, ?G)
      \<and> session_get (snd (update_game n body s)) n = Some ?G"
    if a: "d_release_date body = Val rd \<and> d_studio body = Val st \<and> st \<noteq> []
          \<and> d_ratings body = Val r \<and> d_platforms body = Val p \<and> n \<noteq> []
          \<and> sqlite_integer r"
  proof -
    have fl: "flush_row ?G = Inr ?x" using a by (simp add: flush_row_def)
    have pub: "serialize_response 200 ?G = Inr (200, ?G)"
      using a by (simp add: serialize_response_def GamePublic_validate_def Suc_le_eq)
    show ?thesis
      using commit_refresh_return_ok [OF assms fl] pub supplied a by simp
  qed
  have overflow: "update_game n body s = (Inl OverflowError, s)"
    if a: "d_release_date body = Val rd \<and> d_studio body = Val st \<and> st \<noteq> []
          \<and> d_ratings body = Val r \<and> d_platforms body = Val p \<and> n \<noteq> []
          \<and> \<not> sqlite_integer r"
  proof -
    have "flush_row ?G = Inl OverflowError" using a by (simp add: flush_row_def)
    then show ?thesis using supplied a by (simp add: commit_refresh_return_fail)
  qed
  from omitted replaced overflow show ?thesis by blast
qed

text \<open>
  On the example game: a body without platforms is rejected; a body with a new studio
  and new ratings replaces the row; a body with the ratings \<open>2 ^ 63\<close> overflows.
\<close>

theorem update_game_replaces_witness:
  "session_get [chrono_row] ''Chrono Trigger'' = Some chrono_game
   \<and> required (d_platforms (chrono_trigger\<lparr>d_platforms := Absent\<rparr>)) = None
   \<and> update_game ''Chrono Trigger'' (chrono_trigger\<lparr>d_platforms := Absent\<rparr>) [chrono_row]
       = (Inl ValidationError, [chrono_row])
   \<and> sqlite_integer 9
   \<and> fst (update_game ''Chrono Trigger''
             (chrono_trigger\<lparr>d_studio := Val ''Squaresoft'', d_ratings := Val 9\<rparr>)
             [chrono_row])
       = Inr (200, chrono_game\<lparr>studio := Some ''Squaresoft'', ratings := Some 9\<rparr>)
   \<and> session_get
         (snd (update_game ''Chrono Trigger''
                 (chrono_trigger\<lparr>d_studio := Val ''Squaresoft'', d_ratings := Val 9\<rparr>)
                 [chrono_row]))
         ''Chrono Trigger''
       = Some (chrono_game\<lparr>studio := Some ''Squaresoft'', ratings := Some 9\<rparr>)
   \<and> \<not> sqlite_integer (2 ^ 63)
   \<and> update_game ''Chrono Trigger''
        (chrono_trigger\<lparr>d_studio := Val ''Squaresoft'', d_ratings := Val (2 ^ 63)\<rparr>)
        [chrono_row]
       = (Inl OverflowError, [chrono_row])"
proof -
  have h: "session_get [chrono_row] ''Chrono Trigger'' = Some chrono_game"
    by (rule example_stored)
  have a: "required (d_platforms (chrono_trigger\<lparr>d_platforms := Absent\<rparr>)) = None"
    by simp
  have b: "update_game ''Chrono Trigger'' (chrono_trigger\<lparr>d_platforms := Absent\<rparr>)
             [chrono_row] = (Inl ValidationError, [chrono_row])"
    using update_game_replaces [OF h, of "chrono_trigger\<lparr>d_platforms := Absent\<rparr>"] a
    by blast
  have i9: "sqlite_integer 9" and i63: "\<not> sqlite_integer (2 ^ 63)"
    by (simp_all add: sqlite_integer_def)
  have c: "fst (update_game ''Chrono Trigger''
             (chrono_trigger\<lparr>d_studio := Val ''Squaresoft'', d_ratings := Val 9\<rparr>)
             [chrono_row])
       = Inr (200, chrono_game\<lparr>studio := Some ''Squaresoft'', ratings := Some 9\<rparr>)
    \<and> session_get
         (snd (update_game ''Chrono Trigger''
                 (chrono_trigger\<lparr>d_studio := Val ''Squaresoft'', d_ratings := Val 9\<rparr>)
                 [chrono_row]))
         ''Chrono Trigger''
       = Some (chrono_game\<lparr>studio := Some ''Squaresoft'', ratings := Some 9\<rparr>)"
    using update_game_replaces [OF h,
        of "chrono_trigger\<lparr>d_studio := Val ''Squaresoft'', d_ratings := Val 9\<rparr>"
           "Date 1995 3 11" "''Squaresoft''" 9 "[''SNES'']"] i9
    by (simp add: chrono_trigger_def chrono_game_def)
  have d: "update_game ''Chrono Trigger''
        (chrono_trigger\<lparr>d_studio := Val ''Squaresoft'', d_ratings := Val (2 ^ 63)\<rparr>)
        [chrono_row]
       = (Inl OverflowError, [chrono_row])"
    using update_game_replaces [OF h,
        of "chrono_trigger\<lparr>d_studio := Val ''Squaresoft'', d_ratings := Val (2 ^ 63)\<rparr>"
           "Date 1995 3 11" "''Squaresoft''" "2 ^ 63" "[''SNES'']"] i63
    by (simp add: chrono_trigger_def)
  from h a b c d i9 i63 show ?thesis by simp
qed

subsection \<open>The key\<close>

lemma commit_refresh_return_names:
  assumes "name g = Some key"
  shows "map c_name (snd (commit_refresh_return s key g)) = map c_name s"
proof (cases "flush_row g")
  case (Inl e)
  then show ?thesis by (simp add: commit_refresh_return_fail)
next
  case (Inr r)
  then have k: "c_name r = key" using flush_name assms by fastforce
  show ?thesis
    using commit_update_ok [OF Inr k] names_update [OF k, of s]
    by (simp add: commit_refresh_return_def split: option.splits)
qed

lemma update_game_names: "map c_name (snd (update_game n body s)) = map c_name s"
proof (cases "session_get s n")
  case None
  then show ?thesis by (simp add: update_game_def)
next
  case (Some g)
  let ?d = "(GameUpdate_model_dump (GameUpdate_init body))\<lparr>d_name := Val n\<rparr>"
  show ?thesis
  proof (cases "GameCreate_init ?d")
    case None
    then show ?thesis using Some by (simp add: update_game_def)
  next
    case (Some gc)
    note gc = this
    have n: "name gc = Some n" using gc by (rule GameCreate_init_name) simp
    show ?thesis
    proof (cases "Game_model_validate gc")
      case None
      then show ?thesis using \<open>session_get s n = Some g\<close> gc by (simp add: update_game_def)
    next
      case (Some gu)
      then have "gu = gc" using Game_model_validate_Some by blast
      then have "name (sqlmodel_update g (model_dump gu)) = Some n"
        using n by (simp add: sqlmodel_update_def model_dump_def)
      from commit_refresh_return_names [OF this] show ?thesis
        using \<open>session_get s n = Some g\<close> gc Some by (simp add: update_game_def)
    qed
  qed
qed

lemma partial_update_game_names:
  "map c_name (snd (partial_update_game n body s)) = map c_name s"
proof (cases "session_get s n")
  case None
  then show ?thesis by (simp add: partial_update_game_def)
next
  case (Some g)
  then have "name g = Some n" using session_get_Some by blast
  then have "name (sqlmodel_update g
       (GameUpdate_model_dump_exclude_unset (GameUpdate_init body))) = Some n"
    by (simp add: sqlmodel_update_def GameUpdate_model_dump_exclude_unset_def
        GameUpdate_init_def)
  from commit_refresh_return_names [OF this] show ?thesis
    using Some by (simp add: partial_update_game_def)
qed

text \<open>
  Claim C8. Whatever the path's name and the body of a full or a partial update are
  (the body may carry a \<open>name\<close>), the names of the rows of the table after the request
  are, row by row, the names before it: no update renames a row.
\<close>

theorem update_never_renames:
  "map c_name (snd (update_game n body s)) = map c_name s
   \<and> map c_name (snd (partial_update_game n body s)) = map c_name s"
  by (simp add: update_game_names partial_update_game_names)

text \<open>Both updates of the example game with a body that asks for the name Tetris.\<close>

theorem update_never_renames_witness:
  "map c_name
     (snd (update_game ''Chrono Trigger'' (chrono_trigger\<lparr>d_name := Val ''Tetris''\<rparr>)
             [chrono_row])) = [''Chrono Trigger'']
   \<and> map c_name
     (snd (partial_update_game ''Chrono Trigger'' (empty_body\<lparr>d_name := Val ''Tetris''\<rparr>)
             [chrono_row])) = [''Chrono Trigger'']"
  using update_never_renames
      [of "''Chrono Trigger''" "chrono_trigger\<lparr>d_name := Val ''Tetris''\<rparr>" "[chrono_row]"]
    update_never_renames
      [of "''Chrono Trigger''" "empty_body\<lparr>d_name := Val ''Tetris''\<rparr>" "[chrono_row]"]
  by (simp add: chrono_row_def)

section \<open>Deletion\<close>

text \<open>
  Claim C5. When the table holds the game \<open>g\<close> under the name \<open>n\<close>, the deletion of \<open>n\<close>
  answers 200 with \<open>g\<close> and removes the row: no game is stored under \<open>n\<close> afterwards,
  and the get request for \<open>n\<close> that follows is answered by the not-found error, whose
  status is 404.
\<close>

theorem delete_then_get:
  assumes "session_get s n = Some g"
  shows "fst (delete_game n s) = Inr (200, g)
         \<and> session_get (snd (delete_game n s)) n = None
         \<and> read_game n (snd (delete_game n s)) = Inl (HTTPException 404 ''Game not found'')
         \<and> status_code (HTTPException 404 ''Game not found'') = 404"
  using assms by (simp add: delete_game_def read_game_def session_get_delete)

text \<open>The example game is deleted from the table that holds only it.\<close>

theorem delete_then_get_witness:
  "session_get [chrono_row] ''Chrono Trigger'' = Some chrono_game
   \<and> delete_game ''Chrono Trigger'' [chrono_row] = (Inr (200, chrono_game), [])
   \<and> read_game ''Chrono Trigger'' (snd (delete_game ''Chrono Trigger'' [chrono_row]))
       = Inl (HTTPException 404 ''Game not found'')"
proof -
  have h: "session_get [chrono_row] ''Chrono Trigger'' = Some chrono_game"
    by (rule example_stored)
  have "snd (delete_game ''Chrono Trigger'' [chrono_row]) = []"
    using h by (simp add: delete_game_def commit_delete_def chrono_row_def)
  with delete_then_get [OF h] h show ?thesis by (simp add: prod_eq_iff)
qed

section \<open>Requests for a name that is not stored\<close>

text \<open>
  Claim C6. When no row of the table has the name \<open>n\<close>, the get, the full update, the
  partial update (with any body) and the deletion of \<open>n\<close> are all answered by the
  \<open>HTTPException\<close> of status 404 with the message \<open>Game not found\<close>, and the table is
  unchanged.
\<close>

theorem absent_name_not_found:
  assumes "n \<notin> c_name ` set s"
  shows "read_game n s = Inl (HTTPException 404 ''Game not found'')
         \<and> update_game n body s = (Inl (HTTPException 404 ''Game not found''), s)
         \<and> partial_update_game n body s = (Inl (HTTPException 404 ''Game not found''), s)
         \<and> delete_game n s = (Inl (HTTPException 404 ''Game not found''), s)
         \<and> status_code (HTTPException 404 ''Game not found'') = 404"
proof -
  have "session_get s n = None" using assms by (simp add: session_get_None)
  then show ?thesis
    by (simp add: read_game_def update_game_def partial_update_game_def delete_game_def)
qed

text \<open>The four requests for Tetris on the table that holds only the example game.\<close>

theorem absent_name_not_found_witness:
  "''Tetris'' \<notin> c_name ` set [chrono_row]
   \<and> read_game ''Tetris'' [chrono_row] = Inl (HTTPException 404 ''Game not found'')
   \<and> update_game ''Tetris'' chrono_trigger [chrono_row]
       = (Inl (HTTPException 404 ''Game not found''), [chrono_row])
   \<and> partial_update_game ''Tetris'' empty_body [chrono_row]
       = (Inl (HTTPException 404 ''Game not found''), [chrono_row])
   \<and> delete_game ''Tetris'' [chrono_row]
       = (Inl (HTTPException 404 ''Game not found''), [chrono_row])"
proof -
  have h: "''Tetris'' \<notin> c_name ` set [chrono_row]" by (simp add: chrono_row_def)
  from absent_name_not_found [OF h] h show ?thesis by simp
qed

section \<open>Listing\<close>

text \<open>
  A limit above 100 is rejected before the table is read, an offset or a limit beyond
  the signed 64-bit range cannot be bound to the query, and a limit from 0 to 100
  bounds the number of games in the response.
\<close>

lemma validate_all_length: "validate_all gs = Some ps \<Longrightarrow> length ps = length gs"
  by (induction gs arbitrary: ps) (auto split: option.splits)

lemma read_games_limit_rejected:
  "100 < limit \<Longrightarrow> read_games offset limit s = Inl RequestValidationError"
  by (simp add: read_games_def)

lemma read_games_overflow:
  "limit \<le> 100 \<Longrightarrow> \<not> (sqlite_integer offset \<and> sqlite_integer limit) \<Longrightarrow>
     read_games offset limit s = Inl OverflowError"
  by (auto simp: read_games_def)

lemma read_games_bounded:
  assumes "0 \<le> limit" and "read_games offset limit s = Inr (code, gs)"
  shows "int (length gs) \<le> limit"
proof -
  from assms(2) obtain ps where
    "validate_all (map load (sql_limit limit (sql_offset offset s))) = Some ps" and "gs = ps"
    by (auto simp: read_games_def serialize_sequence_def split: if_splits option.splits)
  then have "length gs = length (sql_limit limit (sql_offset offset s))"
    using validate_all_length by fastforce
  then show ?thesis using assms(1) by (simp add: sql_limit_def)
qed

text \<open>
  Claim C7, at the limit \<open>-1\<close>. The limit passes the validation \<open>le=100\<close>, SQLite reads
  a negative \<open>LIMIT\<close> as no limit, and the response to the list request on the table
  that holds the example game is the sequence of that one game: more than \<open>limit\<close> games.
\<close>

theorem read_games_negative_limit:
  "(-1::int) \<le> 100
   \<and> read_games 0 (-1) (snd (create_game chrono_trigger [])) = Inr (200, [chrono_game])
   \<and> \<not> int (length [chrono_game]) \<le> -1"
  by (simp add: create_example read_games_def sql_limit_def sql_offset_def
      sqlite_integer_def serialize_sequence_def chrono_row_def chrono_game_def load_def
      GamePublic_validate_def)

section \<open>What partial updates can store\<close>

text \<open>
  Creation and full update validate against \<open>Game\<close> before they write, so they keep
  the constraints of the entity on every stored row.
\<close>

lemma create_game_stored_valid:
  assumes "stored_valid s"
  shows "stored_valid (snd (create_game body s))"
proof (cases "GameCreate_init body")
  case None
  then show ?thesis using assms by (simp add: create_game_def)
next
  case (Some game)
  note game = this
  show ?thesis
  proof (cases "Game_model_validate game")
    case None
    then show ?thesis using assms game by (simp add: create_game_def)
  next
    case (Some game_db)
    then have eq: "game_db = game" using Game_model_validate_Some by blast
    show ?thesis
    proof (cases "commit_insert s game")
      case (Inl e)
      then show ?thesis using assms game Some eq by (simp add: create_game_def)
    next
      case (Inr s')
      then obtain r where r: "flush_row game = Inr r" and s': "s' = s @ [r]"
        by (auto simp: commit_insert_def split: sum.splits if_splits)
      have "Game_model_validate (load r) = Some (load r)"
        using load_flush [OF r] Some eq by simp
      then have "stored_valid s'" using assms s' by (simp add: stored_valid_def)
      then show ?thesis
        using game Some eq Inr by (simp add: create_game_def split: option.splits)
    qed
  qed
qed

lemma commit_refresh_return_stored_valid:
  assumes "stored_valid s" and "Game_model_validate g = Some g"
  shows "stored_valid (snd (commit_refresh_return s key g))"
proof (cases "commit_update s key g")
  case (Inl e)
  then show ?thesis using assms(1) by (simp add: commit_refresh_return_def)
next
  case (Inr s')
  then obtain r where r: "flush_row g = Inr r"
    and s': "s' = map (\<lambda>x. if c_name x = key then r else x) s"
    by (auto simp: commit_update_def split: sum.splits if_splits)
  have "Game_model_validate (load r) = Some (load r)"
    using load_flush [OF r] assms(2) by simp
  then have "stored_valid s'"
    using assms(1) s' by (auto simp: stored_valid_def list_all_iff)
  then show ?thesis using Inr by (simp add: commit_refresh_return_def split: option.splits)
qed

lemma sqlmodel_update_full:
  "Game_model_validate g = Some g \<Longrightarrow> sqlmodel_update g0 (model_dump g) = g"
  by (cases g)
     (auto simp: Game_model_validate_def sqlmodel_update_def model_dump_def
           split: option.splits if_splits)

lemma update_game_stored_valid:
  assumes "stored_valid s"
  shows "stored_valid (snd (update_game n body s))"
proof (cases "session_get s n")
  case None
  then show ?thesis using assms by (simp add: update_game_def)
next
  case (Some g)
  show ?thesis
  proof (cases "GameCreate_init
      ((GameUpdate_model_dump (GameUpdate_init body))\<lparr>d_name := Val n\<rparr>)")
    case None
    then show ?thesis using assms by (simp add: update_game_found [OF Some])
  next
    case (Some gc)
    note gc = this
    show ?thesis
    proof (cases "Game_model_validate gc")
      case None
      then show ?thesis
        using assms gc by (simp add: update_game_found [OF \<open>session_get s n = Some g\<close>])
    next
      case (Some gu)
      then have v: "Game_model_validate gu = Some gu" using Game_model_validate_Some by blast
      show ?thesis
        using commit_refresh_return_stored_valid [OF assms v, of n] gc Some
        by (simp add: update_game_found [OF \<open>session_get s n = Some g\<close>]
            sqlmodel_update_full [OF v])
    qed
  qed
qed

text \<open>
  Claim C9, at two partial updates of the example game. The body \<open>{"studio": ""}\<close> is
  accepted by \<open>GameUpdate\<close>, assigned without validation and committed: the stored
  studio is empty. The body \<open>{"platforms": null}\<close> stores a null in the nullable JSON
  column. In both cases the response is the 500 of the response validation, after the
  commit.
\<close>

theorem partial_update_stores_invalid:
  "partial_update_game ''Chrono Trigger'' (empty_body\<lparr>d_studio := Val ''''\<rparr>)
     (snd (create_game chrono_trigger []))
     = (Inl ResponseValidationError, [chrono_row\<lparr>c_studio := ''''\<rparr>])
   \<and> partial_update_game ''Chrono Trigger'' (empty_body\<lparr>d_platforms := Null\<rparr>)
     (snd (create_game chrono_trigger []))
     = (Inl ResponseValidationError, [chrono_row\<lparr>c_platforms := None\<rparr>])"
  by (simp add: create_example partial_update_game_def commit_refresh_return_def
      commit_update_def refresh_def session_get_def load_def flush_row_def
      sqlite_integer_def sqlmodel_update_def GameUpdate_model_dump_exclude_unset_def
      GameUpdate_init_def serialize_response_def GamePublic_validate_def empty_body_def
      chrono_row_def)

text \<open>
  A partial update with the empty body, on a stored game that passes the validation of
  the response model, answers 200 with that game and changes no lookup and no name.
\<close>

lemma sqlmodel_update_empty:
  "sqlmodel_update g (GameUpdate_model_dump_exclude_unset (GameUpdate_init empty_body)) = g"
  by (simp add: sqlmodel_update_def GameUpdate_model_dump_exclude_unset_def
      GameUpdate_init_def empty_body_def)

lemma partial_update_empty_body_valid:
  assumes "session_get s n = Some g" and "GamePublic_validate g = Some g"
  shows "fst (partial_update_game n empty_body s) = Inr (200, g)
         \<and> session_get (snd (partial_update_game n empty_body s)) k = session_get s k
         \<and> map c_name (snd (partial_update_game n empty_body s)) = map c_name s"
proof -
  obtain r where r: "flush_row g = Inr r" and nm: "name g = Some n"
    using assms(1) session_get_Some by blast
  then have k: "c_name r = n" using flush_name nm by fastforce
  have pu: "partial_update_game n empty_body s = commit_refresh_return s n g"
    using assms(1) by (simp add: partial_update_game_def sqlmodel_update_empty)
  have "session_get (map (\<lambda>x. if c_name x = n then r else x) s) k = session_get s k"
    using assms(1) load_flush [OF r] by (simp add: session_get_update [OF k])
  then show ?thesis
    using commit_refresh_return_ok [OF assms(1) r k] pu assms(2) names_update [OF k, of s]
    by (simp add: serialize_response_def)
qed

text \<open>
  Claim C10, at the row left by the partial update with \<open>{"studio": ""}\<close>: the partial
  update with the empty body leaves the table as it is, and its response is not 200 with
  the stored game but the error of the response validation, status 500.
\<close>

theorem partial_update_empty_body_fails:
  "partial_update_game ''Chrono Trigger'' empty_body
     (snd (partial_update_game ''Chrono Trigger'' (empty_body\<lparr>d_studio := Val ''''\<rparr>)
        (snd (create_game chrono_trigger []))))
     = (Inl ResponseValidationError, [chrono_row\<lparr>c_studio := ''''\<rparr>])
   \<and> status_code ResponseValidationError = 500"
  by (simp add: create_example partial_update_game_def commit_refresh_return_def
      commit_update_def refresh_def session_get_def load_def flush_row_def
      sqlite_integer_def sqlmodel_update_def GameUpdate_model_dump_exclude_unset_def
      GameUpdate_init_def serialize_response_def GamePublic_validate_def empty_body_def
      chrono_row_def)

end
